theory Spec2Isabelle
  imports Main
begin

section \<open>The Google auth provider: data model\<close>

text \<open>
  A thrown JavaScript \<open>Error\<close> object: its \<open>name\<close> (which is \<open>Error\<close> for
  \<open>new Error(msg)\<close>) and its \<open>message\<close>.
\<close>

datatype js_error = JsError (err_name: string) (message: string)

text \<open>
  The string a template literal \<open>${error}\<close> puts in for an error object
  (\<open>Error.prototype.toString\<close>).
\<close>

definition to_string :: "js_error \<Rightarrow> string" where
  "to_string e =
     (if err_name e = [] then message e
      else if message e = [] then err_name e
      else err_name e @ '': '' @ message e)"

text \<open>\<open>ProfileInfo\<close>: every field is optional (\<open>None\<close> is \<open>undefined\<close>).\<close>

record ProfileInfo =
  email :: "string option"
  displayName :: "string option"
  picture :: "string option"

record OAuthProviderInfo =
  idToken :: "string option"
  accessToken :: string
  scope :: string
  expiresInSeconds :: int

text \<open>
  \<open>BackstageIdentity\<close>. The field \<open>id\<close> is written \<open>id'\<close>; its value is \<open>None\<close> when
  the JavaScript value is \<open>undefined\<close>, which is what reading an array out of range gives.
\<close>

record BackstageIdentity =
  id' :: "string option"

record OAuthResponse =
  providerInfo :: OAuthProviderInfo
  profile :: ProfileInfo
  backstageIdentity :: "BackstageIdentity option"


text \<open>The part of a catalog user entity that the provider reads: \<open>user.metadata.name\<close>.\<close>

record EntityMeta =
  name :: string

record UserEntity =
  metadata :: EntityMeta

text \<open>The argument of \<open>identityClient.findUser\<close>: annotation keys with their values.\<close>

record UserQuery =
  annotations :: "(string \<times> string) list"

text \<open>
  What the provider holds: the passport strategy, which is opaque here, and the identity
  client, as the function from a query to either the error it throws or the user it
  returns. The logger is a sink; what it received is part of the effects.
\<close>

record 's GoogleAuthProvider =
  strategy :: 's
  findUser :: "UserQuery \<Rightarrow> js_error + UserEntity"

text \<open>
  The effects of a call: the queries sent to the identity client and the messages given
  to \<open>logger.warn\<close>, both in order.
\<close>

record Effects =
  findUser_calls :: "UserQuery list"
  warned :: "string list"

section \<open>String helpers\<close>

text \<open>\<open>s.split(sep)\<close> for a separator of one character.\<close>

fun split_sep :: "char \<Rightarrow> string \<Rightarrow> string list" where
  "split_sep sep [] = [[]]"
| "split_sep sep (c # cs) =
     (if c = sep then [] # split_sep sep cs
      else (case split_sep sep cs of
              [] \<Rightarrow> [[c]]
            | w # ws \<Rightarrow> (c # w) # ws))"

text \<open>\<open>xs[0]\<close>: \<open>undefined\<close> on the empty array.\<close>

definition index0 :: "'a list \<Rightarrow> 'a option" where
  "index0 xs = (case xs of [] \<Rightarrow> None | x # _ \<Rightarrow> Some x)"

section \<open>populateIdentity\<close>

definition no_email_error :: js_error where
  "no_email_error = JsError ''Error'' ''Google profile contained no email''"

definition lookup_warning :: "js_error \<Rightarrow> string" where
  "lookup_warning error =
     ''Failed to look up user, '' @ to_string error @
     '', falling back to allowing login based on email pattern, this will probably break in the future''"

definition email_query :: "string \<Rightarrow> UserQuery" where
  "email_query e = \<lparr>annotations = [(''google.com/email'', e)]\<rparr>"

text \<open>
  \<open>!profile.email\<close> holds for \<open>undefined\<close> and for the empty string; both throw before
  anything else happens. Otherwise the identity client is asked, and what it throws is
  caught, logged as a warning and replaced by the first piece of the email split at \<open>@\<close>.
\<close>

definition populateIdentity ::
  "'s GoogleAuthProvider \<Rightarrow> 'a OAuthResponse_scheme \<Rightarrow> Effects
     \<Rightarrow> (js_error + 'a OAuthResponse_scheme) \<times> Effects" where
  "populateIdentity this response s =
     (case email (profile response) of
        None \<Rightarrow> (Inl no_email_error, s)
      | Some e \<Rightarrow>
          if e = [] then (Inl no_email_error, s)
          else
            (let s1 = s\<lparr>findUser_calls := findUser_calls s @ [email_query e]\<rparr>
             in case findUser this (email_query e) of
                  Inr user \<Rightarrow>
                    (Inr (response\<lparr>backstageIdentity :=
                            Some \<lparr>id' = Some (name (metadata user))\<rparr>\<rparr>), s1)
                | Inl error \<Rightarrow>
                    (Inr (response\<lparr>backstageIdentity :=
                            Some \<lparr>id' = index0 (split_sep (CHR ''@'') e)\<rparr>\<rparr>),
                     s1\<lparr>warned := warned s1 @ [lookup_warning error]\<rparr>)))"

section \<open>handler and refresh\<close>






section \<open>The scaffolder plugin: createPlugin\<close>

text \<open>
  The objects that \<open>createPlugin\<close> builds. A constructor call \<open>new X(args)\<close> is the
  constructor \<open>X\<close> applied to its arguments. \<open>'c\<close> is the type of configuration objects
  and \<open>'g\<close> the type of the Azure git client that \<open>webApi.getGitApi()\<close> resolves to.
\<close>

datatype Templater = CookieCutter | CreateReactAppTemplater

datatype 'c Preparer = FilePreparer | GitlabPreparer 'c | AzurePreparer 'c | GithubPreparer string

datatype Octokit = Octokit string

datatype Gitlab = Gitlab "string option" string

datatype AuthHandler = PersonalAccessTokenHandler string

datatype WebApi = WebApi string AuthHandler

datatype 'g Publisher =
    GithubPublisher Octokit string string
  | GitlabPublisher Gitlab string
  | AzurePublisher 'g string

datatype Docker = Docker

text \<open>
  The three registries, each a map from the registered key to the registered object
  (\<open>register\<close> stores under the key), and the messages given to \<open>logger.warn\<close>.
\<close>

record ('c, 'g) Scaffolder =
  templaters :: "string \<rightharpoonup> Templater"
  preparers :: "string \<rightharpoonup> 'c Preparer"
  publishers :: "string \<rightharpoonup> 'g Publisher"
  warn_log :: "string list"

record ('c, 'g) RouterOptions =
  opt_preparers :: "string \<rightharpoonup> 'c Preparer"
  opt_templaters :: "string \<rightharpoonup> Templater"
  opt_publishers :: "string \<rightharpoonup> 'g Publisher"
  dockerClient :: Docker

text \<open>
  What \<open>createPlugin\<close> calls and does not define: the readers of a configuration object,
  the Azure client's \<open>getGitApi\<close>, \<open>createRouter\<close>, and the value of
  \<open>process.env.NODE_ENV\<close>. Each call either throws or returns.
\<close>

record ('c, 'g, 'r) PluginEnvironment =
  getOptionalConfig :: "'c \<Rightarrow> string \<Rightarrow> js_error + 'c option"
  getConfig :: "'c \<Rightarrow> string \<Rightarrow> js_error + 'c"
  getString :: "'c \<Rightarrow> string \<Rightarrow> js_error + string"
  getOptionalString :: "'c \<Rightarrow> string \<Rightarrow> js_error + string option"
  getGitApi :: "WebApi \<Rightarrow> js_error + 'g"
  createRouter :: "('c, 'g) RouterOptions \<Rightarrow> js_error + 'r"
  NODE_ENV :: "string option"

text \<open>
  The body of each \<open>try\<close> block: \<open>Some e\<close> when it throws \<open>e\<close>, \<open>None\<close> when it runs to
  its end. Every call that can throw comes before the first \<open>register\<close>; the
  constructors build their objects and do not throw.
\<close>

definition github_try ::
  "('c, 'g, 'r) PluginEnvironment \<Rightarrow> 'c \<Rightarrow> ('c, 'g) Scaffolder
     \<Rightarrow> js_error option \<times> ('c, 'g) Scaffolder" where
  "github_try env githubConfig st =
     (case getString env githubConfig ''visibility'' of
        Inl e \<Rightarrow> (Some e, st)
      | Inr repoVisibility \<Rightarrow>
          (case getString env githubConfig ''token'' of
             Inl e \<Rightarrow> (Some e, st)
           | Inr githubToken \<Rightarrow>
               (let githubClient = Octokit githubToken;
                    githubPublisher = GithubPublisher githubClient githubToken repoVisibility;
                    githubPreparer = GithubPreparer githubToken
                in (None,
                    st\<lparr>preparers := (preparers st)(''github'' \<mapsto> githubPreparer),
                       publishers := (publishers st)(''file'' \<mapsto> githubPublisher,
                                                     ''github'' \<mapsto> githubPublisher)\<rparr>))))"

definition gitlab_try ::
  "('c, 'g, 'r) PluginEnvironment \<Rightarrow> 'c \<Rightarrow> ('c, 'g) Scaffolder
     \<Rightarrow> js_error option \<times> ('c, 'g) Scaffolder" where
  "gitlab_try env gitLabConfig st =
     (case getString env gitLabConfig ''token'' of
        Inl e \<Rightarrow> (Some e, st)
      | Inr gitLabToken \<Rightarrow>
          (case getOptionalString env gitLabConfig ''baseUrl'' of
             Inl e \<Rightarrow> (Some e, st)
           | Inr host \<Rightarrow>
               (let gitLabClient = Gitlab host gitLabToken;
                    gitLabPublisher = GitlabPublisher gitLabClient gitLabToken
                in (None,
                    st\<lparr>publishers := (publishers st)(''gitlab'' \<mapsto> gitLabPublisher,
                                                     ''gitlab/api'' \<mapsto> gitLabPublisher)\<rparr>))))"

definition azure_try ::
  "('c, 'g, 'r) PluginEnvironment \<Rightarrow> 'c \<Rightarrow> ('c, 'g) Scaffolder
     \<Rightarrow> js_error option \<times> ('c, 'g) Scaffolder" where
  "azure_try env azureConfig st =
     (case getString env azureConfig ''baseUrl'' of
        Inl e \<Rightarrow> (Some e, st)
      | Inr baseUrl \<Rightarrow>
          (case getConfig env azureConfig ''api'' of
             Inl e \<Rightarrow> (Some e, st)
           | Inr api \<Rightarrow>
               (case getString env api ''token'' of
                  Inl e \<Rightarrow> (Some e, st)
                | Inr azureToken \<Rightarrow>
                    (let authHandler = PersonalAccessTokenHandler azureToken;
                         webApi = WebApi baseUrl authHandler
                     in case getGitApi env webApi of
                          Inl e \<Rightarrow> (Some e, st)
                        | Inr azureClient \<Rightarrow>
                            (let azurePublisher = AzurePublisher azureClient azureToken
                             in (None,
                                 st\<lparr>publishers :=
                                      (publishers st)(''azure/api'' \<mapsto> azurePublisher)\<rparr>))))))"

text \<open>
  The \<open>catch\<close> block, the same text three times with another \<open>providerName\<close>: outside
  development it throws a new error, in development it warns and goes on. The two
  template literals come first.
\<close>

definition failed_to_initialize :: "string \<Rightarrow> js_error \<Rightarrow> string" where
  "failed_to_initialize providerName e =
     ''Failed to initialize '' @ providerName @ '' scaffolding provider, '' @ message e"

definition skipping :: "string \<Rightarrow> js_error \<Rightarrow> string" where
  "skipping providerName e =
     ''Skipping '' @ providerName @ '' scaffolding provider, '' @ message e"

definition provider_catch ::
  "('c, 'g, 'r) PluginEnvironment \<Rightarrow> string \<Rightarrow> js_error \<Rightarrow> ('c, 'g) Scaffolder
     \<Rightarrow> js_error option \<times> ('c, 'g) Scaffolder" where
  "provider_catch env providerName e st =
     (if NODE_ENV env \<noteq> Some ''development''
      then (Some (JsError ''Error'' (failed_to_initialize providerName e)), st)
      else (None, st\<lparr>warn_log := warn_log st @ [skipping providerName e]\<rparr>))"

text \<open>
  One provider block: read the optional configuration (outside the \<open>try\<close>, so what it
  throws goes to the caller), and when it is there run the \<open>try\<close> with its \<open>catch\<close>.
\<close>

definition provider_block ::
  "('c, 'g, 'r) PluginEnvironment \<Rightarrow> 'c \<Rightarrow> string \<Rightarrow> string
     \<Rightarrow> ('c \<Rightarrow> ('c, 'g) Scaffolder \<Rightarrow> js_error option \<times> ('c, 'g) Scaffolder)
     \<Rightarrow> ('c, 'g) Scaffolder \<Rightarrow> js_error option \<times> ('c, 'g) Scaffolder" where
  "provider_block env config key providerName body st =
     (case getOptionalConfig env config key of
        Inl e \<Rightarrow> (Some e, st)
      | Inr None \<Rightarrow> (None, st)
      | Inr (Some providerConfig) \<Rightarrow>
          (case body providerConfig st of
             (None, st') \<Rightarrow> (None, st')
           | (Some e, st') \<Rightarrow> provider_catch env providerName e st'))"

definition github_block ::
  "('c, 'g, 'r) PluginEnvironment \<Rightarrow> 'c \<Rightarrow> ('c, 'g) Scaffolder
     \<Rightarrow> js_error option \<times> ('c, 'g) Scaffolder" where
  "github_block env config = provider_block env config ''scaffolder.github'' ''github'' (github_try env)"

definition gitlab_block ::
  "('c, 'g, 'r) PluginEnvironment \<Rightarrow> 'c \<Rightarrow> ('c, 'g) Scaffolder
     \<Rightarrow> js_error option \<times> ('c, 'g) Scaffolder" where
  "gitlab_block env config = provider_block env config ''scaffolder.gitlab.api'' ''gitlab'' (gitlab_try env)"

definition azure_block ::
  "('c, 'g, 'r) PluginEnvironment \<Rightarrow> 'c \<Rightarrow> ('c, 'g) Scaffolder
     \<Rightarrow> js_error option \<times> ('c, 'g) Scaffolder" where
  "azure_block env config = provider_block env config ''scaffolder.azure'' ''azure'' (azure_try env)"

text \<open>The registries as they are before the first provider block.\<close>

definition initial_scaffolder :: "'c \<Rightarrow> string list \<Rightarrow> ('c, 'g) Scaffolder" where
  "initial_scaffolder config log =
     \<lparr>templaters = [''cookiecutter'' \<mapsto> CookieCutter, ''cra'' \<mapsto> CreateReactAppTemplater],
      preparers = [''file'' \<mapsto> FilePreparer, ''gitlab'' \<mapsto> GitlabPreparer config,
                   ''gitlab/api'' \<mapsto> GitlabPreparer config, ''azure/api'' \<mapsto> AzurePreparer config],
      publishers = Map.empty,
      warn_log = log\<rparr>"

text \<open>
  \<open>createPlugin\<close>, given the messages the logger has received so far: its result, thrown
  or returned, and the messages the logger has received at the end.
\<close>

definition createPlugin ::
  "('c, 'g, 'r) PluginEnvironment \<Rightarrow> 'c \<Rightarrow> string list \<Rightarrow> (js_error + 'r) \<times> string list" where
  "createPlugin env config log =
     (case github_block env config (initial_scaffolder config log) of
        (Some e, st1) \<Rightarrow> (Inl e, warn_log st1)
      | (None, st1) \<Rightarrow>
          (case gitlab_block env config st1 of
             (Some e, st2) \<Rightarrow> (Inl e, warn_log st2)
           | (None, st2) \<Rightarrow>
               (case azure_block env config st2 of
                  (Some e, st3) \<Rightarrow> (Inl e, warn_log st3)
                | (None, st3) \<Rightarrow>
                    (createRouter env
                       \<lparr>opt_preparers = preparers st3, opt_templaters = templaters st3,
                        opt_publishers = publishers st3, dockerClient = Docker\<rparr>,
                     warn_log st3))))"

section \<open>Sample inputs\<close>

text \<open>A response as the strategy callback builds it, with the given email.\<close>

definition example_response :: "string option \<Rightarrow> OAuthResponse" where
  "example_response e =
     \<lparr>providerInfo = \<lparr>idToken = Some ''id-token'', accessToken = ''access-token'',
                      scope = ''openid email'', expiresInSeconds = 3600\<rparr>,
      profile = \<lparr>email = e, displayName = Some ''Example User'', picture = None\<rparr>,
      backstageIdentity = None\<rparr>"

definition not_found :: js_error where
  "not_found = JsError ''NotFoundError'' ''User not found''"

text \<open>A directory that knows \<open>bob@co.com\<close> as \<open>u-bob\<close> and nobody else.\<close>

definition example_provider :: "unit GoogleAuthProvider" where
  "example_provider =
     \<lparr>strategy = (),
      findUser = (\<lambda>q. if q = email_query ''bob@co.com''
                       then Inr \<lparr>metadata = \<lparr>name = ''u-bob''\<rparr>\<rparr>
                       else Inl not_found)\<rparr>"

definition no_effects :: Effects where
  "no_effects = \<lparr>findUser_calls = [], warned = []\<rparr>"


text \<open>
  A plugin environment where only the GitHub provider is configured, and its
  configuration lacks every string that is asked for.
\<close>

definition example_env :: "string option \<Rightarrow> (string, unit, unit) PluginEnvironment" where
  "example_env node_env =
     \<lparr>getOptionalConfig =
        (\<lambda>c key. Inr (if key = ''scaffolder.github'' then Some ''github-config'' else None)),
      getConfig = (\<lambda>c key. Inl (JsError ''Error'' (''Missing required config value at '' @ key))),
      getString = (\<lambda>c key. Inl (JsError ''Error'' (''Missing required config value at '' @ key))),
      getOptionalString = (\<lambda>c key. Inr None),
      getGitApi = (\<lambda>webApi. Inr ()),
      createRouter = (\<lambda>options. Inr ()),
      NODE_ENV = node_env\<rparr>"

section \<open>Splitting an email\<close>

lemma split_sep_not_Nil: "split_sep sep s \<noteq> []"
  by (induction s) (auto split: list.splits)

lemma index0_split_sep: "index0 (split_sep sep s) = Some (takeWhile (\<lambda>c. c \<noteq> sep) s)"
  by (induction s) (auto simp: index0_def split: list.splits)

lemma takeWhile_before_sep:
  "sep \<notin> set l \<Longrightarrow> takeWhile (\<lambda>c. c \<noteq> sep) (l @ sep # r) = l"
  by (induction l) auto

section \<open>Properties of populateIdentity\<close>

text \<open>
  C1, as stated, fails: with the email \<open>@co.com\<close>, which is not empty, and a directory
  that does not know it, the resolved identity id is the empty string.
\<close>

theorem populateIdentity_empty_id_counterexample:
  "email (profile (example_response (Some ''@co.com''))) = Some ''@co.com'' \<and>
   ''@co.com'' \<noteq> [] \<and>
   populateIdentity example_provider (example_response (Some ''@co.com'')) no_effects =
     (Inr ((example_response (Some ''@co.com''))\<lparr>backstageIdentity := Some \<lparr>id' = Some []\<rparr>\<rparr>),
      \<lparr>findUser_calls = [email_query ''@co.com''],
       warned = [lookup_warning not_found]\<rparr>)"
  by (simp add: populateIdentity_def example_provider_def example_response_def no_effects_def
      email_query_def index0_def)

text \<open>
  C1, amended: for every response whose profile has a non-empty email, populateIdentity
  returns the response with backstageIdentity set and its id defined, whether the lookup
  succeeds or fails. The id is the empty string in two cases only: the directory returns a
  user whose name is empty, or the lookup fails and the email begins with \<open>@\<close>.
\<close>

theorem populateIdentity_identity_present:
  assumes "email (profile response) = Some e" and "e \<noteq> []"
  shows "\<exists>i. fst (populateIdentity this response s) =
              Inr (response\<lparr>backstageIdentity := Some \<lparr>id' = Some i\<rparr>\<rparr>) \<and>
             (i = [] \<longleftrightarrow>
               (case findUser this (email_query e) of
                  Inr user \<Rightarrow> name (metadata user) = []
                | Inl error \<Rightarrow> (\<exists>r. e = CHR ''@'' # r)))"
proof (cases "findUser this (email_query e)")
  case (Inl error)
  have "takeWhile (\<lambda>c. c \<noteq> CHR ''@'') e = [] \<longleftrightarrow> (\<exists>r. e = CHR ''@'' # r)"
    using assms(2) by (cases e) auto
  with Inl assms show ?thesis
    by (intro exI[of _ "takeWhile (\<lambda>c. c \<noteq> CHR ''@'') e"])
       (simp add: populateIdentity_def index0_split_sep)
next
  case (Inr user)
  with assms show ?thesis
    by (intro exI[of _ "name (metadata user)"]) (simp add: populateIdentity_def)
qed

theorem populateIdentity_identity_present_witness:
  "email (profile (example_response (Some ''alice@example.com''))) = Some ''alice@example.com'' \<and>
   ''alice@example.com'' \<noteq> [] \<and>
   (\<exists>i. fst (populateIdentity example_provider
                (example_response (Some ''alice@example.com'')) no_effects) =
              Inr ((example_response (Some ''alice@example.com''))
                     \<lparr>backstageIdentity := Some \<lparr>id' = Some i\<rparr>\<rparr>) \<and>
        i \<noteq> [])"
  using populateIdentity_identity_present
    [of "example_response (Some ''alice@example.com'')" "''alice@example.com''"
      example_provider no_effects]
  by (simp add: example_response_def example_provider_def email_query_def)

text \<open>
  C2: when the profile's email is absent or the empty string, populateIdentity throws the
  error with the message \<open>Google profile contained no email\<close>, and the effects are those
  from before the call: no query went to the identity client and nothing was logged.
\<close>

theorem populateIdentity_missing_email:
  assumes "email (profile response) = None \<or> email (profile response) = Some []"
  shows "populateIdentity this response s =
           (Inl (JsError ''Error'' ''Google profile contained no email''), s)"
  using assms by (auto simp: populateIdentity_def no_email_error_def)

theorem populateIdentity_missing_email_witness:
  "(email (profile (example_response (Some []))) = None \<or>
    email (profile (example_response (Some []))) = Some []) \<and>
   populateIdentity example_provider (example_response (Some [])) no_effects =
     (Inl (JsError ''Error'' ''Google profile contained no email''),
      \<lparr>findUser_calls = [], warned = []\<rparr>)"
  using populateIdentity_missing_email [of "example_response (Some [])" example_provider no_effects]
  by (simp add: example_response_def no_effects_def)

text \<open>
  C3: when the lookup for a non-empty email \<open>e\<close> throws \<open>err\<close>, populateIdentity returns
  the response with the id set to the first piece of \<open>e\<close> split at \<open>@\<close>, which is the text
  before the first \<open>@\<close> when there is one; the identity client was asked once, and exactly
  one warning was logged, with \<open>err\<close> in it.
\<close>

theorem populateIdentity_lookup_failure_fallback:
  assumes "email (profile response) = Some e" and "e \<noteq> []"
    and "findUser this (email_query e) = Inl err"
  shows "populateIdentity this response s =
           (Inr (response\<lparr>backstageIdentity :=
                   Some \<lparr>id' = Some (takeWhile (\<lambda>c. c \<noteq> CHR ''@'') e)\<rparr>\<rparr>),
            s\<lparr>findUser_calls := findUser_calls s @ [email_query e],
              warned := warned s @
                [''Failed to look up user, '' @ to_string err @
                 '', falling back to allowing login based on email pattern, this will probably break in the future'']\<rparr>)
         \<and> (\<forall>l r. e = l @ CHR ''@'' # r \<and> CHR ''@'' \<notin> set l \<longrightarrow>
               fst (populateIdentity this response s) =
                 Inr (response\<lparr>backstageIdentity := Some \<lparr>id' = Some l\<rparr>\<rparr>))"
  using assms
  by (auto simp: populateIdentity_def index0_split_sep lookup_warning_def takeWhile_before_sep)

theorem populateIdentity_lookup_failure_fallback_witness:
  "email (profile (example_response (Some ''alice@example.com''))) = Some ''alice@example.com'' \<and>
   ''alice@example.com'' \<noteq> [] \<and>
   findUser example_provider (email_query ''alice@example.com'') = Inl not_found \<and>
   ''alice@example.com'' = ''alice'' @ CHR ''@'' # ''example.com'' \<and>
   CHR ''@'' \<notin> set ''alice'' \<and>
   populateIdentity example_provider (example_response (Some ''alice@example.com'')) no_effects =
     (Inr ((example_response (Some ''alice@example.com''))
             \<lparr>backstageIdentity := Some \<lparr>id' = Some ''alice''\<rparr>\<rparr>),
      \<lparr>findUser_calls = [email_query ''alice@example.com''],
       warned = [''Failed to look up user, NotFoundError: User not found, falling back to allowing login based on email pattern, this will probably break in the future'']\<rparr>)"
  using populateIdentity_lookup_failure_fallback
    [of "example_response (Some ''alice@example.com'')" "''alice@example.com''"
      example_provider not_found no_effects]
  by (simp add: example_response_def example_provider_def email_query_def no_effects_def
      not_found_def to_string_def)

text \<open>
  C4: when the lookup for a non-empty email \<open>e\<close> returns a user, the id of the returned
  response is that user's name, and no warning is logged: the fallback is not taken.
\<close>

theorem populateIdentity_lookup_success:
  assumes "email (profile response) = Some e" and "e \<noteq> []"
    and "findUser this (email_query e) = Inr user"
  shows "populateIdentity this response s =
           (Inr (response\<lparr>backstageIdentity := Some \<lparr>id' = Some (name (metadata user))\<rparr>\<rparr>),
            s\<lparr>findUser_calls := findUser_calls s @ [email_query e]\<rparr>)"
  using assms by (simp add: populateIdentity_def)

theorem populateIdentity_lookup_success_witness:
  "email (profile (example_response (Some ''bob@co.com''))) = Some ''bob@co.com'' \<and>
   ''bob@co.com'' \<noteq> [] \<and>
   findUser example_provider (email_query ''bob@co.com'') = Inr \<lparr>metadata = \<lparr>name = ''u-bob''\<rparr>\<rparr> \<and>
   populateIdentity example_provider (example_response (Some ''bob@co.com'')) no_effects =
     (Inr ((example_response (Some ''bob@co.com''))
             \<lparr>backstageIdentity := Some \<lparr>id' = Some ''u-bob''\<rparr>\<rparr>),
      \<lparr>findUser_calls = [email_query ''bob@co.com''], warned = []\<rparr>)"
  using populateIdentity_lookup_success
    [of "example_response (Some ''bob@co.com'')" "''bob@co.com''"
      example_provider "\<lparr>metadata = \<lparr>name = ''u-bob''\<rparr>\<rparr>" no_effects]
  by (simp add: example_response_def example_provider_def no_effects_def)

text \<open>
  C5: with a non-empty email, populateIdentity returns a response whatever the identity
  client does, so an error of the lookup never reaches the caller; the only error
  populateIdentity throws is the one for the missing email, and it throws it only when
  the email is absent or empty.
\<close>

theorem populateIdentity_lookup_error_not_surfaced:
  "(email (profile response) = Some e \<and> e \<noteq> [] \<longrightarrow>
      (\<forall>lookup. \<exists>r. fst (populateIdentity (this\<lparr>findUser := lookup\<rparr>) response s) = Inr r)) \<and>
   (\<forall>err. fst (populateIdentity this response s) = Inl err \<longrightarrow>
      err = no_email_error \<and>
      (email (profile response) = None \<or> email (profile response) = Some []))"
  by (auto simp: populateIdentity_def Let_def split: option.splits sum.splits)

theorem populateIdentity_lookup_error_not_surfaced_witness:
  "email (profile (example_response (Some ''carol@co.com''))) = Some ''carol@co.com'' \<and>
   ''carol@co.com'' \<noteq> [] \<and>
   (\<exists>r. fst (populateIdentity (example_provider\<lparr>findUser := \<lambda>q. Inl not_found\<rparr>)
              (example_response (Some ''carol@co.com'')) no_effects) = Inr r) \<and>
   fst (populateIdentity example_provider (example_response None) no_effects) = Inl no_email_error \<and>
   email (profile (example_response None)) = None"
  using populateIdentity_lookup_error_not_surfaced
      [of "example_response (Some ''carol@co.com'')" "''carol@co.com''" example_provider no_effects]
    populateIdentity_lookup_error_not_surfaced
      [of "example_response None" "[]" example_provider no_effects]
  by (simp add: example_response_def populateIdentity_def)

text \<open>
  C6: the resolved identity is determined by the profile's email and the directory alone.
  Two calls whose responses carry the same email and whose identity clients answer alike
  throw the same error or return the same backstageIdentity, whatever else the responses
  and providers hold and whatever was queried and logged before; with the same response
  the whole outcome is the same, so a second call after a first repeats it.
\<close>

theorem populateIdentity_deterministic:
  assumes "email (profile response) = email (profile response')"
    and "findUser this = findUser this'"
  shows "map_sum (\<lambda>err. err) backstageIdentity (fst (populateIdentity this response s)) =
         map_sum (\<lambda>err. err) backstageIdentity (fst (populateIdentity this' response' s')) \<and>
         (response = response' \<longrightarrow>
            fst (populateIdentity this response s) = fst (populateIdentity this' response' s'))"
  using assms
  by (auto simp: populateIdentity_def Let_def split: option.splits sum.splits)

theorem populateIdentity_deterministic_witness:
  "email (profile (example_response (Some ''carol@co.com''))) =
     email (profile ((example_response (Some ''carol@co.com''))
                       \<lparr>providerInfo := \<lparr>idToken = None, accessToken = ''other-token'',
                                          scope = ''openid'', expiresInSeconds = 60\<rparr>\<rparr>)) \<and>
   findUser example_provider =
     findUser \<lparr>strategy = (1::nat), findUser = findUser example_provider\<rparr> \<and>
   map_sum (\<lambda>err. err) backstageIdentity
     (fst (populateIdentity example_provider (example_response (Some ''carol@co.com'')) no_effects)) =
     Inr (Some \<lparr>id' = Some ''carol''\<rparr>) \<and>
   map_sum (\<lambda>err. err) backstageIdentity
     (fst (populateIdentity \<lparr>strategy = (1::nat), findUser = findUser example_provider\<rparr>
             ((example_response (Some ''carol@co.com''))
                \<lparr>providerInfo := \<lparr>idToken = None, accessToken = ''other-token'',
                                   scope = ''openid'', expiresInSeconds = 60\<rparr>\<rparr>)
             (snd (populateIdentity example_provider
                     (example_response (Some ''carol@co.com'')) no_effects)))) =
     Inr (Some \<lparr>id' = Some ''carol''\<rparr>) \<and>
   fst (populateIdentity example_provider (example_response (Some ''carol@co.com''))
          (snd (populateIdentity example_provider
                  (example_response (Some ''carol@co.com'')) no_effects))) =
     fst (populateIdentity example_provider (example_response (Some ''carol@co.com'')) no_effects)"
proof -
  let ?r = "example_response (Some ''carol@co.com'')"
  let ?r' = "?r\<lparr>providerInfo := \<lparr>idToken = None, accessToken = ''other-token'',
                                   scope = ''openid'', expiresInSeconds = 60\<rparr>\<rparr>"
  let ?this' = "\<lparr>strategy = (1::nat), findUser = findUser example_provider\<rparr>"
  let ?s1 = "snd (populateIdentity example_provider ?r no_effects)"
  have e: "email (profile ?r) = email (profile ?r')" by simp
  have f: "findUser example_provider = findUser ?this'" by simp
  have v: "map_sum (\<lambda>err. err) backstageIdentity
             (fst (populateIdentity example_provider ?r no_effects)) =
           Inr (Some \<lparr>id' = Some ''carol''\<rparr>)"
    by (simp add: populateIdentity_def example_provider_def example_response_def
        email_query_def index0_def)
  have e2: "email (profile ?r) = email (profile ?r)" by simp
  have f2: "findUser example_provider = findUser example_provider" by simp
  from populateIdentity_deterministic [OF e f, of no_effects ?s1]
    populateIdentity_deterministic [OF e2 f2, of ?s1 no_effects] v e f
  show ?thesis by simp
qed

text \<open>
  C7: a response that populateIdentity returns has the providerInfo, the profile and every
  further field of the input response, and its backstageIdentity is set.
\<close>

theorem populateIdentity_frame:
  assumes "fst (populateIdentity this response s) = Inr r"
  shows "providerInfo r = providerInfo response \<and> profile r = profile response \<and>
         OAuthResponse.more r = OAuthResponse.more response \<and>
         (\<exists>i. backstageIdentity r = Some i)"
  using assms
  by (auto simp: populateIdentity_def Let_def split: option.splits sum.splits if_splits)

theorem populateIdentity_frame_witness:
  "fst (populateIdentity example_provider (example_response (Some ''bob@co.com'')) no_effects) =
     Inr ((example_response (Some ''bob@co.com''))
            \<lparr>backstageIdentity := Some \<lparr>id' = Some ''u-bob''\<rparr>\<rparr>) \<and>
   providerInfo ((example_response (Some ''bob@co.com''))
                   \<lparr>backstageIdentity := Some \<lparr>id' = Some ''u-bob''\<rparr>\<rparr>) =
     providerInfo (example_response (Some ''bob@co.com'')) \<and>
   profile ((example_response (Some ''bob@co.com''))
              \<lparr>backstageIdentity := Some \<lparr>id' = Some ''u-bob''\<rparr>\<rparr>) =
     profile (example_response (Some ''bob@co.com''))"
proof -
  have run: "fst (populateIdentity example_provider (example_response (Some ''bob@co.com''))
                    no_effects) =
     Inr ((example_response (Some ''bob@co.com''))
            \<lparr>backstageIdentity := Some \<lparr>id' = Some ''u-bob''\<rparr>\<rparr>)"
    by (simp add: populateIdentity_def example_provider_def example_response_def)
  from populateIdentity_frame [OF run] run show ?thesis by simp
qed

text \<open>
  C9: when the lookup fails, the fallback gives a defined id for every non-empty email,
  and for an email without \<open>@\<close> the id is the whole email.
\<close>

theorem populateIdentity_fallback_without_at:
  assumes "email (profile response) = Some e" and "e \<noteq> []"
    and "findUser this (email_query e) = Inl err"
  shows "\<exists>i. fst (populateIdentity this response s) =
               Inr (response\<lparr>backstageIdentity := Some \<lparr>id' = Some i\<rparr>\<rparr>) \<and>
             (CHR ''@'' \<notin> set e \<longrightarrow> i = e)"
  using assms
  by (intro exI[of _ "takeWhile (\<lambda>c. c \<noteq> CHR ''@'') e"])
     (auto simp: populateIdentity_def index0_split_sep)

theorem populateIdentity_fallback_without_at_witness:
  "email (profile (example_response (Some ''alice''))) = Some ''alice'' \<and> ''alice'' \<noteq> [] \<and>
   findUser example_provider (email_query ''alice'') = Inl not_found \<and>
   CHR ''@'' \<notin> set ''alice'' \<and>
   fst (populateIdentity example_provider (example_response (Some ''alice'')) no_effects) =
     Inr ((example_response (Some ''alice''))\<lparr>backstageIdentity := Some \<lparr>id' = Some ''alice''\<rparr>\<rparr>)"
  using populateIdentity_fallback_without_at
    [of "example_response (Some ''alice'')" "''alice''" example_provider not_found no_effects]
  by (auto simp: example_response_def example_provider_def email_query_def)

section \<open>Properties of handler and refresh\<close>




section \<open>Properties of createPlugin\<close>

text \<open>
  What a \<open>try\<close> body throws does not depend on the registries, a body that throws has
  registered nothing, and no body logs.
\<close>

lemma github_try_throws:
  "fst (github_try env c st) = Some e \<Longrightarrow> github_try env c st' = (Some e, st')"
  by (auto simp: github_try_def Let_def split: sum.splits)

lemma gitlab_try_throws:
  "fst (gitlab_try env c st) = Some e \<Longrightarrow> gitlab_try env c st' = (Some e, st')"
  by (auto simp: gitlab_try_def Let_def split: sum.splits)

lemma azure_try_throws:
  "fst (azure_try env c st) = Some e \<Longrightarrow> azure_try env c st' = (Some e, st')"
  by (auto simp: azure_try_def Let_def split: sum.splits)

lemma github_try_log: "warn_log (snd (github_try env c st)) = warn_log st"
  by (auto simp: github_try_def Let_def split: sum.splits)

lemma gitlab_try_log: "warn_log (snd (gitlab_try env c st)) = warn_log st"
  by (auto simp: gitlab_try_def Let_def split: sum.splits)

lemma azure_try_log: "warn_log (snd (azure_try env c st)) = warn_log st"
  by (auto simp: azure_try_def Let_def split: sum.splits)

lemma provider_tries:
  assumes "(key, providerName, body) \<in>
             {(''scaffolder.github'', ''github'', github_try env),
              (''scaffolder.gitlab.api'', ''gitlab'', gitlab_try env),
              (''scaffolder.azure'', ''azure'', azure_try env)}"
  shows "fst (body c st) = Some e \<Longrightarrow> body c st' = (Some e, st')"
    and "warn_log (snd (body c st)) = warn_log st"
  using assms
  by (auto simp: github_try_throws gitlab_try_throws azure_try_throws
      github_try_log gitlab_try_log azure_try_log)

lemma provider_block_caught:
  assumes "getOptionalConfig env config key = Inr (Some pc)" and "body pc st = (Some e, st)"
  shows "provider_block env config key providerName body st =
           (if NODE_ENV env = Some ''development''
            then (None, st\<lparr>warn_log := warn_log st @ [skipping providerName e]\<rparr>)
            else (Some (JsError ''Error'' (failed_to_initialize providerName e)), st))"
  using assms by (simp add: provider_block_def provider_catch_def)

lemma provider_block_development:
  assumes "NODE_ENV env = Some ''development''" and "getOptionalConfig env config key = Inr r"
    and "\<And>c st. warn_log (snd (body c st)) = warn_log st"
  shows "\<exists>ws. provider_block env config key providerName body st =
           (None, snd (provider_block env config key providerName body st)) \<and>
           warn_log (snd (provider_block env config key providerName body st)) = warn_log st @ ws"
proof (cases r)
  case None
  with assms(2) show ?thesis by (simp add: provider_block_def)
next
  case (Some pc)
  obtain res st' where b: "body pc st = (res, st')" by (cases "body pc st")
  with assms(3) [of pc st] have l: "warn_log st' = warn_log st" by simp
  show ?thesis
    using assms(1,2) Some b l
    by (cases res) (simp_all add: provider_block_def provider_catch_def)
qed

lemma provider_block_production:
  assumes "NODE_ENV env \<noteq> Some ''development''" and "getOptionalConfig env config key = Inr r"
    and "\<And>c st. warn_log (snd (body c st)) = warn_log st"
    and "\<forall>c st st' e. fst (body c st) = Some e \<longrightarrow> body c st' = (Some e, st')"
  shows "(\<exists>st'. provider_block env config key providerName body st = (None, st') \<and>
                warn_log st' = warn_log st \<and>
                (\<forall>pc st0. r = Some pc \<longrightarrow> fst (body pc st0) = None)) \<or>
         (\<exists>e. provider_block env config key providerName body st =
                 (Some (JsError ''Error'' (failed_to_initialize providerName e)), st))"
proof (cases r)
  case None
  with assms(2) show ?thesis by (simp add: provider_block_def)
next
  case (Some pc)
  obtain res st' where b: "body pc st = (res, st')" by (cases "body pc st")
  with assms(3) [of pc st] have l: "warn_log st' = warn_log st" by simp
  show ?thesis
  proof (cases res)
    case None
    have "fst (body pc st0) = None" for st0
    proof (cases "fst (body pc st0)")
      case (Some e)
      from assms(4) this have "body pc st = (Some e, st)" by blast
      with b None show ?thesis by simp
    qed simp
    with Some assms(2) b None l show ?thesis
      by (simp add: provider_block_def)
  next
    case (Some e)
    with b have "fst (body pc st) = Some e" by simp
    with assms(4) have thrown: "body pc st = (Some e, st)" by blast
    from assms(2) \<open>r = Some pc\<close> have "getOptionalConfig env config key = Inr (Some pc)" by simp
    from provider_block_caught [where body = body, OF this thrown] assms(1)
    show ?thesis by auto
  qed
qed

lemma createPlugin_blocks:
  "createPlugin env config log =
     (case provider_block env config ''scaffolder.github'' ''github'' (github_try env)
             (initial_scaffolder config log) of
        (Some e, st1) \<Rightarrow> (Inl e, warn_log st1)
      | (None, st1) \<Rightarrow>
          (case provider_block env config ''scaffolder.gitlab.api'' ''gitlab'' (gitlab_try env) st1 of
             (Some e, st2) \<Rightarrow> (Inl e, warn_log st2)
           | (None, st2) \<Rightarrow>
               (case provider_block env config ''scaffolder.azure'' ''azure'' (azure_try env) st2 of
                  (Some e, st3) \<Rightarrow> (Inl e, warn_log st3)
                | (None, st3) \<Rightarrow>
                    (createRouter env
                       \<lparr>opt_preparers = preparers st3, opt_templaters = templaters st3,
                        opt_publishers = publishers st3, dockerClient = Docker\<rparr>,
                     warn_log st3))))"
  unfolding createPlugin_def github_block_def gitlab_block_def azure_block_def ..

lemma createPlugin_completes_in_development:
  assumes dev: "NODE_ENV env = Some ''development''"
    and k1: "getOptionalConfig env config ''scaffolder.github'' = Inr r1"
    and k2: "getOptionalConfig env config ''scaffolder.gitlab.api'' = Inr r2"
    and k3: "getOptionalConfig env config ''scaffolder.azure'' = Inr r3"
    and block: "(key, providerName, body) \<in>
             {(''scaffolder.github'', ''github'', github_try env),
              (''scaffolder.gitlab.api'', ''gitlab'', gitlab_try env),
              (''scaffolder.azure'', ''azure'', azure_try env)}"
    and present: "getOptionalConfig env config key = Inr (Some pc)"
    and throws: "fst (body pc st) = Some e"
  shows "\<exists>options log'. createPlugin env config log = (createRouter env options, log') \<and>
           skipping providerName e \<in> set log'"
proof -
  let ?st0 = "initial_scaffolder config log :: ('a, 'b) Scaffolder"
  let ?B1 = "provider_block env config ''scaffolder.github'' ''github'' (github_try env)"
  let ?B2 = "provider_block env config ''scaffolder.gitlab.api'' ''gitlab'' (gitlab_try env)"
  let ?B3 = "provider_block env config ''scaffolder.azure'' ''azure'' (azure_try env)"
  obtain st1 ws1 where b1: "?B1 ?st0 = (None, st1)" and l1: "warn_log st1 = warn_log ?st0 @ ws1"
    using provider_block_development [where body = "github_try env" and providerName = "''github''"
        and st = ?st0, OF dev k1 github_try_log] by metis
  obtain st2 ws2 where b2: "?B2 st1 = (None, st2)" and l2: "warn_log st2 = warn_log st1 @ ws2"
    using provider_block_development [where body = "gitlab_try env" and providerName = "''gitlab''"
        and st = st1, OF dev k2 gitlab_try_log] by metis
  obtain st3 ws3 where b3: "?B3 st2 = (None, st3)" and l3: "warn_log st3 = warn_log st2 @ ws3"
    using provider_block_development [where body = "azure_try env" and providerName = "''azure''"
        and st = st2, OF dev k3 azure_try_log] by metis
  have thrown: "body pc st' = (Some e, st')" for st'
    using provider_tries(1) [OF block throws] .
  have caught: "provider_block env config key providerName body st' =
      (None, st'\<lparr>warn_log := warn_log st' @ [skipping providerName e]\<rparr>)" for st'
    using provider_block_caught [where body = body, OF present thrown] dev by simp
  have "skipping providerName e \<in> set (warn_log st3)"
    using block caught [of ?st0] caught [of st1] caught [of st2] b1 b2 b3 l1 l2 l3
    by auto
  moreover have "createPlugin env config log =
      (createRouter env \<lparr>opt_preparers = preparers st3, opt_templaters = templaters st3,
                         opt_publishers = publishers st3, dockerClient = Docker\<rparr>, warn_log st3)"
    by (simp add: createPlugin_blocks b1 b2 b3)
  ultimately show ?thesis by blast
qed

lemma createPlugin_fails_outside_development:
  assumes prod: "NODE_ENV env \<noteq> Some ''development''"
    and k1: "getOptionalConfig env config ''scaffolder.github'' = Inr r1"
    and k2: "getOptionalConfig env config ''scaffolder.gitlab.api'' = Inr r2"
    and k3: "getOptionalConfig env config ''scaffolder.azure'' = Inr r3"
    and block: "(key, providerName, body) \<in>
             {(''scaffolder.github'', ''github'', github_try env),
              (''scaffolder.gitlab.api'', ''gitlab'', gitlab_try env),
              (''scaffolder.azure'', ''azure'', azure_try env)}"
    and present: "getOptionalConfig env config key = Inr (Some pc)"
    and throws: "fst (body pc st) = Some e"
  shows "\<exists>p err. p \<in> {''github'', ''gitlab'', ''azure''} \<and>
           createPlugin env config log =
             (Inl (JsError ''Error'' (failed_to_initialize p err)), log)"
proof -
  let ?st0 = "initial_scaffolder config log :: ('a, 'b) Scaffolder"
  let ?B1 = "provider_block env config ''scaffolder.github'' ''github'' (github_try env)"
  let ?B2 = "provider_block env config ''scaffolder.gitlab.api'' ''gitlab'' (gitlab_try env)"
  let ?B3 = "provider_block env config ''scaffolder.azure'' ''azure'' (azure_try env)"
  let ?failed = "\<lambda>p err. JsError ''Error'' (failed_to_initialize p err)"
  have log0: "warn_log ?st0 = log" by (simp add: initial_scaffolder_def)
  have t1: "\<forall>c st st' e. fst (github_try env c st) = Some e \<longrightarrow> github_try env c st' = (Some e, st')"
    by (intro allI impI) (rule github_try_throws)
  have t2: "\<forall>c st st' e. fst (gitlab_try env c st) = Some e \<longrightarrow> gitlab_try env c st' = (Some e, st')"
    by (intro allI impI) (rule gitlab_try_throws)
  have t3: "\<forall>c st st' e. fst (azure_try env c st) = Some e \<longrightarrow> azure_try env c st' = (Some e, st')"
    by (intro allI impI) (rule azure_try_throws)
  note p1 = provider_block_production [where body = "github_try env" and providerName = "''github''"
      and st = ?st0, OF prod k1 github_try_log t1]
  show ?thesis
  proof (cases "\<exists>err. ?B1 ?st0 = (Some (?failed ''github'' err), ?st0)")
    case True
    then obtain err where "?B1 ?st0 = (Some (?failed ''github'' err), ?st0)" ..
    with log0 have "createPlugin env config log = (Inl (?failed ''github'' err), log)"
      by (simp add: createPlugin_blocks)
    then show ?thesis by blast
  next
    case False
    with p1 obtain st1 where b1: "?B1 ?st0 = (None, st1)" and l1: "warn_log st1 = log"
      and n1: "\<And>c st0. r1 = Some c \<Longrightarrow> fst (github_try env c st0) = None"
      using log0 by auto
    note p2 = provider_block_production [where body = "gitlab_try env" and providerName = "''gitlab''"
        and st = st1, OF prod k2 gitlab_try_log t2]
    show ?thesis
    proof (cases "\<exists>err. ?B2 st1 = (Some (?failed ''gitlab'' err), st1)")
      case True
      then obtain err where "?B2 st1 = (Some (?failed ''gitlab'' err), st1)" ..
      with b1 l1 have "createPlugin env config log = (Inl (?failed ''gitlab'' err), log)"
        by (simp add: createPlugin_blocks)
      then show ?thesis by blast
    next
      case False
      with p2 obtain st2 where b2: "?B2 st1 = (None, st2)" and l2: "warn_log st2 = log"
        and n2: "\<And>c st0. r2 = Some c \<Longrightarrow> fst (gitlab_try env c st0) = None"
        using l1 by auto
      note p3 = provider_block_production [where body = "azure_try env" and providerName = "''azure''"
          and st = st2, OF prod k3 azure_try_log t3]
      show ?thesis
      proof (cases "\<exists>err. ?B3 st2 = (Some (?failed ''azure'' err), st2)")
        case True
        then obtain err where "?B3 st2 = (Some (?failed ''azure'' err), st2)" ..
        with b1 b2 l2 have "createPlugin env config log = (Inl (?failed ''azure'' err), log)"
          by (simp add: createPlugin_blocks)
        then show ?thesis by blast
      next
        case False
        with p3 have n3: "\<And>c st0. r3 = Some c \<Longrightarrow> fst (azure_try env c st0) = None"
          by auto
        from block present throws k1 k2 k3 n1 n2 n3 have False by auto
        then show ?thesis ..
      qed
    qed
  qed
qed

text \<open>
  C8, as stated, fails: with \<open>NODE_ENV\<close> set to \<open>production\<close>, the GitHub configuration
  present and its \<open>try\<close> block throwing, createPlugin throws and logs nothing.
\<close>

theorem createPlugin_production_counterexample:
  "getOptionalConfig (example_env (Some ''production'')) ''root'' ''scaffolder.github'' =
     Inr (Some ''github-config'') \<and>
   fst (github_try (example_env (Some ''production'')) ''github-config''
          (initial_scaffolder ''root'' [])) =
     Some (JsError ''Error'' ''Missing required config value at visibility'') \<and>
   createPlugin (example_env (Some ''production'')) ''root'' [] =
     (Inl (JsError ''Error''
        ''Failed to initialize github scaffolding provider, Missing required config value at visibility''),
      [])"
  by (simp add: createPlugin_def github_block_def provider_block_def github_try_def
      provider_catch_def example_env_def initial_scaffolder_def failed_to_initialize_def)

text \<open>
  C8, amended: when the configuration of one of the three providers is present and its
  \<open>try\<close> block throws \<open>e\<close>, the block registers nothing and, if \<open>NODE_ENV\<close> is
  \<open>development\<close>, logs the warning \<open>Skipping <provider> scaffolding provider, <message of e>\<close>
  and completes without throwing; otherwise it throws the error \<open>Failed to initialize
  <provider> scaffolding provider, <message of e>\<close>. For createPlugin as a whole, provided
  that the three \<open>getOptionalConfig\<close> reads, which stand outside the \<open>try\<close> blocks, return
  rather than throw: in development it goes on to createRouter with that warning logged,
  and outside development it throws such an error for one of the three providers and logs
  nothing.
\<close>

theorem createPlugin_provider_try_throws:
  assumes block: "(key, providerName, body) \<in>
             {(''scaffolder.github'', ''github'', github_try env),
              (''scaffolder.gitlab.api'', ''gitlab'', gitlab_try env),
              (''scaffolder.azure'', ''azure'', azure_try env)}"
    and present: "getOptionalConfig env config key = Inr (Some providerConfig)"
    and throws: "fst (body providerConfig st) = Some e"
  shows "provider_block env config key providerName body st =
           (if NODE_ENV env = Some ''development''
            then (None,
                  st\<lparr>warn_log := warn_log st @
                       [''Skipping '' @ providerName @ '' scaffolding provider, '' @ message e]\<rparr>)
            else (Some (JsError ''Error''
                          (''Failed to initialize '' @ providerName @
                           '' scaffolding provider, '' @ message e)),
                  st)) \<and>
         ((\<forall>k \<in> {''scaffolder.github'', ''scaffolder.gitlab.api'', ''scaffolder.azure''}.
             \<exists>r. getOptionalConfig env config k = Inr r) \<longrightarrow>
          (if NODE_ENV env = Some ''development''
           then \<exists>options log'.
                  createPlugin env config log = (createRouter env options, log') \<and>
                  (''Skipping '' @ providerName @ '' scaffolding provider, '' @ message e) \<in> set log'
           else \<exists>p err. p \<in> {''github'', ''gitlab'', ''azure''} \<and>
                  createPlugin env config log =
                    (Inl (JsError ''Error''
                            (''Failed to initialize '' @ p @ '' scaffolding provider, '' @
                             message err)),
                     log)))"
proof (intro conjI impI)
  from provider_tries(1) [OF block throws] have "body providerConfig st = (Some e, st)" .
  from provider_block_caught [where body = body, OF present this]
  show "provider_block env config key providerName body st =
           (if NODE_ENV env = Some ''development''
            then (None,
                  st\<lparr>warn_log := warn_log st @
                       [''Skipping '' @ providerName @ '' scaffolding provider, '' @ message e]\<rparr>)
            else (Some (JsError ''Error''
                          (''Failed to initialize '' @ providerName @
                           '' scaffolding provider, '' @ message e)),
                  st))"
    by (simp add: skipping_def failed_to_initialize_def)
next
  assume "\<forall>k \<in> {''scaffolder.github'', ''scaffolder.gitlab.api'', ''scaffolder.azure''}.
             \<exists>r. getOptionalConfig env config k = Inr r"
  then obtain r1 r2 r3 where k1: "getOptionalConfig env config ''scaffolder.github'' = Inr r1"
    and k2: "getOptionalConfig env config ''scaffolder.gitlab.api'' = Inr r2"
    and k3: "getOptionalConfig env config ''scaffolder.azure'' = Inr r3"
    by auto
  show "if NODE_ENV env = Some ''development''
           then \<exists>options log'.
                  createPlugin env config log = (createRouter env options, log') \<and>
                  (''Skipping '' @ providerName @ '' scaffolding provider, '' @ message e) \<in> set log'
           else \<exists>p err. p \<in> {''github'', ''gitlab'', ''azure''} \<and>
                  createPlugin env config log =
                    (Inl (JsError ''Error''
                            (''Failed to initialize '' @ p @ '' scaffolding provider, '' @
                             message err)),
                     log)"
  proof (cases "NODE_ENV env = Some ''development''")
    case True
    from createPlugin_completes_in_development [OF True k1 k2 k3 block present throws, of log] True
    show ?thesis by (simp add: skipping_def)
  next
    case False
    from createPlugin_fails_outside_development [OF False k1 k2 k3 block present throws, of log] False
    show ?thesis by (simp add: failed_to_initialize_def)
  qed
qed

theorem createPlugin_provider_try_throws_witness:
  "(''scaffolder.github'', ''github'', github_try (example_env (Some ''development''))) \<in>
     {(''scaffolder.github'', ''github'', github_try (example_env (Some ''development''))),
      (''scaffolder.gitlab.api'', ''gitlab'', gitlab_try (example_env (Some ''development''))),
      (''scaffolder.azure'', ''azure'', azure_try (example_env (Some ''development'')))} \<and>
   getOptionalConfig (example_env (Some ''development'')) ''root'' ''scaffolder.github'' =
     Inr (Some ''github-config'') \<and>
   fst (github_try (example_env (Some ''development'')) ''github-config''
          (initial_scaffolder ''root'' [])) =
     Some (JsError ''Error'' ''Missing required config value at visibility'') \<and>
   getOptionalConfig (example_env (Some ''development'')) ''root'' ''scaffolder.gitlab.api'' =
     Inr None \<and>
   getOptionalConfig (example_env (Some ''development'')) ''root'' ''scaffolder.azure'' =
     Inr None \<and>
   fst (provider_block (example_env (Some ''development'')) ''root'' ''scaffolder.github''
          ''github'' (github_try (example_env (Some ''development'')))
          (initial_scaffolder ''root'' [])) = None \<and>
   (\<exists>options log'.
      createPlugin (example_env (Some ''development'')) ''root'' [] =
        (createRouter (example_env (Some ''development'')) options, log') \<and>
      ''Skipping github scaffolding provider, Missing required config value at visibility''
        \<in> set log')"
proof -
  let ?env = "example_env (Some ''development'')"
  let ?e = "JsError ''Error'' ''Missing required config value at visibility''"
  have block: "(''scaffolder.github'', ''github'', github_try ?env) \<in>
     {(''scaffolder.github'', ''github'', github_try ?env),
      (''scaffolder.gitlab.api'', ''gitlab'', gitlab_try ?env),
      (''scaffolder.azure'', ''azure'', azure_try ?env)}"
    by simp
  have present: "getOptionalConfig ?env ''root'' ''scaffolder.github'' = Inr (Some ''github-config'')"
    by (simp add: example_env_def)
  have throws: "fst (github_try ?env ''github-config'' (initial_scaffolder ''root'' [])) = Some ?e"
    by (simp add: github_try_def example_env_def)
  have keys: "\<forall>k \<in> {''scaffolder.github'', ''scaffolder.gitlab.api'', ''scaffolder.azure''}.
      \<exists>r. getOptionalConfig ?env ''root'' k = Inr r"
    by (simp add: example_env_def)
  have dev: "NODE_ENV ?env = Some ''development''"
    by (simp add: example_env_def)
  from createPlugin_provider_try_throws [OF block present throws, of "[]"] keys dev
    block present throws
  show ?thesis by (simp add: example_env_def)
qed

end
